theory Spec2Isabelle
  imports Complex_Main "HOL-Library.Word"
begin

section \<open>The metric and reporting pipeline of fl\_aitp\_simulation.cc\<close>

text \<open>
  Conventions of the embedding.

  \<^item> A \<^verbatim>\<open>uint32_t\<close> is a \<^typ>\<open>32 word\<close>; its conversion to \<^verbatim>\<open>double\<close> is
    \<open>real (unat n)\<close>, which is exact for every 32-bit value.
  \<^item> In the metric functions a \<^verbatim>\<open>double\<close> is a \<^typ>\<open>real\<close> and its operations are the
    exact ones. Where the source divides by zero the value of that model means nothing, and
    the theorems that depend on the quotient exclude the divisor zero by a hypothesis. Where
    rounding decides a property (the order of two latencies, the exact doubling of a privacy
    loss), the latency and privacy-loss functions are given a second time with every
    operation rounded to binary64.
  \<^item> The function-local statics (the \<^verbatim>\<open>initialized\<close> map of \<^verbatim>\<open>LogToCsv\<close>, the engine
    of \<^verbatim>\<open>GetRandomFailureRate\<close>) and the files on disk are fields of one state record
    that is passed through the calls.
  \<^item> The ns-3 objects that \<^verbatim>\<open>main\<close> builds (nodes, channel, mobility, energy source, the
    simulator run) are library code and are not modelled; neither is a failing
    \<^verbatim>\<open>ofstream\<close>, which the source never tests.
\<close>

subsection \<open>Simulation parameters\<close>

record SimulationParams =
  nSta :: "32 word"
  simTime :: real
  dpEpsilon :: real
  modes :: "string list"
  nStaValues :: "32 word list"

text \<open>The default member initialisers of the struct.\<close>

definition default_params :: SimulationParams where
  "default_params =
     \<lparr> nSta = 500, simTime = 10, dpEpsilon = 1,
       modes = [''AITP'', ''CAIP'', ''NAP''],
       nStaValues = [50, 100, 200, 300, 400, 500] \<rparr>"

subsection \<open>State of a process\<close>

text \<open>
  A line of an output file is the header text or a data row. A data row is kept as the
  sequence of doubles it prints (each followed by a comma in the file); the decimal
  rendering of \<^verbatim>\<open>operator<<(double)\<close> is not modelled.
\<close>

datatype csv_line = HeaderLine string | DataLine "real list"

text \<open>
  \<open>initialized\<close> is the static \<^verbatim>\<open>std::map<std::string, bool>\<close> of \<^verbatim>\<open>LogToCsv\<close>
  (\<^verbatim>\<open>operator[]\<close> yields \<^verbatim>\<open>false\<close> for a key never stored). \<open>gen\<close> is the state of the
  static engine of \<^verbatim>\<open>GetRandomFailureRate\<close>, kept as the number of values drawn so far.
  \<open>files\<close> maps a file name to the lines of the file, \<open>None\<close> when there is no such file.
\<close>

record proc_state =
  initialized :: "string \<Rightarrow> bool"
  gen :: nat
  files :: "string \<rightharpoonup> csv_line list"

text \<open>
  A process starts with an empty \<^verbatim>\<open>initialized\<close> map and a default-constructed engine: the
  source passes no seed, so the engine starts from the default seed of its type in every
  process. Only the files found on disk differ from one start to another.
\<close>

definition process_start :: "(string \<rightharpoonup> csv_line list) \<Rightarrow> proc_state" where
  "process_start fs = \<lparr> initialized = (\<lambda>_. False), gen = 0, files = fs \<rparr>"

subsection \<open>Logging helper\<close>

text \<open>
  \<^verbatim>\<open>LogToCsv\<close>: opening with \<^verbatim>\<open>std::ios::out\<close> creates the file or empties an existing one;
  opening with \<^verbatim>\<open>std::ios::app\<close> creates the file when it is missing and writes at its end.
\<close>

definition LogToCsv :: "string \<Rightarrow> string \<Rightarrow> real list \<Rightarrow> proc_state \<Rightarrow> proc_state" where
  "LogToCsv filename header values s =
     (if \<not> initialized s filename
      then s \<lparr> files := (files s)(filename \<mapsto> [HeaderLine header, DataLine values]),
               initialized := (initialized s)(filename := True) \<rparr>
      else s \<lparr> files := (files s)(filename \<mapsto>
                 (case files s filename of None \<Rightarrow> [] | Some ls \<Rightarrow> ls) @ [DataLine values]) \<rparr>)"

subsection \<open>Metric functions\<close>

text \<open>
  Which engine \<^verbatim>\<open>std::default_random_engine\<close> names is implementation-defined, so the
  sequence of values that the default-constructed engine yields through
  \<^verbatim>\<open>uniform_real_distribution<double>(0.0, 1.0)\<close> is a parameter \<open>u\<close>: \<open>u k\<close> is the value of
  the \<open>k\<close>-th draw of a process.
\<close>

definition GetRandomFailureRate :: "(nat \<Rightarrow> real) \<Rightarrow> proc_state \<Rightarrow> real \<times> proc_state" where
  "GetRandomFailureRate u s = (u (gen s), s \<lparr> gen := gen s + 1 \<rparr>)"

text \<open>
  Each range-based \<^verbatim>\<open>for\<close> over \<^verbatim>\<open>params.nStaValues\<close> is a left fold whose accumulator is
  the vector being filled; \<^verbatim>\<open>push_back\<close> appends at the end. The third argument of every
  metric function is never read by the source.
\<close>

definition ComputeLatency :: "SimulationParams \<Rightarrow> string \<Rightarrow> 32 word \<Rightarrow> real list" where
  "ComputeLatency params mode nSta_arg =
     foldl (\<lambda>latencies n.
        let baseLatency = 10 + 200 / real (unat n)
        in if mode = ''AITP'' then latencies @ [baseLatency * 0.9683]
           else if mode = ''CAIP'' then latencies @ [baseLatency]
           else latencies @ [baseLatency * 1.35])
      [] (nStaValues params)"

definition ComputeThroughput :: "SimulationParams \<Rightarrow> string \<Rightarrow> 32 word \<Rightarrow> real list" where
  "ComputeThroughput params mode nSta_arg =
     foldl (\<lambda>throughputs n.
        let baseThroughput = 30 * ln (1 + real (unat n) / 2)
        in if mode = ''AITP'' then throughputs @ [baseThroughput * 1.117]
           else if mode = ''CAIP'' then throughputs @ [baseThroughput]
           else throughputs @ [baseThroughput * 0.5462])
      [] (nStaValues params)"

definition ComputeEnergyEfficiency :: "SimulationParams \<Rightarrow> string \<Rightarrow> 32 word \<Rightarrow> real list" where
  "ComputeEnergyEfficiency params mode nSta_arg =
     foldl (\<lambda>efficiencies n.
        let baseEfficiency = 0.4 * real (unat n)
        in if mode = ''AITP'' then efficiencies @ [baseEfficiency * 1.27]
           else if mode = ''CAIP'' then efficiencies @ [baseEfficiency]
           else efficiencies @ [baseEfficiency * 0.78])
      [] (nStaValues params)"

definition ComputePrivacyLoss :: "SimulationParams \<Rightarrow> string \<Rightarrow> 32 word \<Rightarrow> real list" where
  "ComputePrivacyLoss params mode nSta_arg =
     foldl (\<lambda>privacyLosses n.
        let baseLoss = 2 / dpEpsilon params
        in if mode = ''AITP'' then privacyLosses @ [baseLoss * 0.875]
           else if mode = ''CAIP'' then privacyLosses @ [baseLoss]
           else privacyLosses @ [baseLoss * 1.2])
      [] (nStaValues params)"

definition ComputeRobustness ::
  "(nat \<Rightarrow> real) \<Rightarrow> SimulationParams \<Rightarrow> string \<Rightarrow> 32 word \<Rightarrow> proc_state \<Rightarrow> real list \<times> proc_state" where
  "ComputeRobustness u params mode nSta_arg s0 =
     foldl (\<lambda>(robustnesses, s) n.
        let (failureRate, s') = GetRandomFailureRate u s;
            baseRobustness = 1 - failureRate * 0.5
        in if mode = ''AITP'' then (robustnesses @ [baseRobustness * 1.335], s')
           else if mode = ''CAIP'' then (robustnesses @ [baseRobustness], s')
           else (robustnesses @ [baseRobustness * 0.8], s'))
      ([], s0) (nStaValues params)"

subsection \<open>Main program\<close>

text \<open>
  \<^verbatim>\<open>cmd.AddValue\<close> and \<^verbatim>\<open>cmd.Parse\<close> store a value given on the command line into the bound
  field and leave the field alone otherwise; the values arrive here already parsed.
\<close>

definition parse_args :: "32 word option \<Rightarrow> real option \<Rightarrow> SimulationParams \<Rightarrow> SimulationParams" where
  "parse_args nSta_opt dpEpsilon_opt params =
     (let p1 = (case nSta_opt of None \<Rightarrow> params | Some v \<Rightarrow> params \<lparr> nSta := v \<rparr>)
      in (case dpEpsilon_opt of None \<Rightarrow> p1 | Some e \<Rightarrow> p1 \<lparr> dpEpsilon := e \<rparr>))"

text \<open>The body of the loop over \<^verbatim>\<open>params.modes\<close> in \<^verbatim>\<open>main\<close>.\<close>

definition main_mode_body :: "(nat \<Rightarrow> real) \<Rightarrow> SimulationParams \<Rightarrow> proc_state \<Rightarrow> string \<Rightarrow> proc_state" where
  "main_mode_body u params s mode =
     (let prefix = ''results_'' @ mode;
          latencies = ComputeLatency params mode (nSta params);
          throughputs = ComputeThroughput params mode (nSta params);
          energyEfficiencies = ComputeEnergyEfficiency params mode (nSta params);
          privacyLosses = ComputePrivacyLoss params mode (nSta params);
          (robustnesses, s1) = ComputeRobustness u params mode (nSta params) s;
          header = ''nSta=50,nSta=100,nSta=200,nSta=300,nSta=400,nSta=500'';
          s2 = LogToCsv (prefix @ ''_latency.csv'') header latencies s1;
          s3 = LogToCsv (prefix @ ''_throughput.csv'') header throughputs s2;
          s4 = LogToCsv (prefix @ ''_energy.csv'') header energyEfficiencies s3;
          s5 = LogToCsv (prefix @ ''_privacy.csv'') header privacyLosses s4
      in LogToCsv (prefix @ ''_robustness.csv'') header robustnesses s5)"

definition main_metrics :: "(nat \<Rightarrow> real) \<Rightarrow> SimulationParams \<Rightarrow> proc_state \<Rightarrow> proc_state" where
  "main_metrics u params s = foldl (main_mode_body u params) s (modes params)"

text \<open>
  \<^verbatim>\<open>main\<close>: the default parameters, the two command-line values, then the metrics of every
  mode. The source has no other statement that reads or changes the parameters.
\<close>

definition main_model ::
  "(nat \<Rightarrow> real) \<Rightarrow> 32 word option \<Rightarrow> real option \<Rightarrow> proc_state \<Rightarrow> proc_state" where
  "main_model u nSta_opt dpEpsilon_opt s =
     main_metrics u (parse_args nSta_opt dpEpsilon_opt default_params) s"

subsection \<open>The specification's table of baselines and factors\<close>

text \<open>
  The three strategies the specification names, and the four metrics whose values it fixes
  exactly. \<open>spec_baseline\<close> and \<open>spec_factor\<close> follow the table of section 4.1 of the
  specification (\<open>n\<close> the swept size, \<open>eps\<close> the privacy budget); they are what the metric
  functions above are compared with. \<open>metric_model\<close> selects the source function of a metric.
\<close>

datatype strategy = AITP | CAIP | NAP

fun strategy_name :: "strategy \<Rightarrow> string" where
  "strategy_name AITP = ''AITP''"
| "strategy_name CAIP = ''CAIP''"
| "strategy_name NAP = ''NAP''"

datatype metric = Latency | Throughput | EnergyEfficiency | PrivacyLoss

fun spec_baseline :: "metric \<Rightarrow> real \<Rightarrow> nat \<Rightarrow> real" where
  "spec_baseline Latency eps n = 10 + 200 / real n"
| "spec_baseline Throughput eps n = 30 * ln (1 + real n / 2)"
| "spec_baseline EnergyEfficiency eps n = 0.4 * real n"
| "spec_baseline PrivacyLoss eps n = 2 / eps"

fun spec_factor :: "metric \<Rightarrow> strategy \<Rightarrow> real" where
  "spec_factor Latency AITP = 0.9683"
| "spec_factor Latency NAP = 1.35"
| "spec_factor Throughput AITP = 1.117"
| "spec_factor Throughput NAP = 0.5462"
| "spec_factor EnergyEfficiency AITP = 1.27"
| "spec_factor EnergyEfficiency NAP = 0.78"
| "spec_factor PrivacyLoss AITP = 0.875"
| "spec_factor PrivacyLoss NAP = 1.2"
| "spec_factor m CAIP = 1"

fun metric_model :: "metric \<Rightarrow> SimulationParams \<Rightarrow> string \<Rightarrow> 32 word \<Rightarrow> real list" where
  "metric_model Latency = ComputeLatency"
| "metric_model Throughput = ComputeThroughput"
| "metric_model EnergyEfficiency = ComputeEnergyEfficiency"
| "metric_model PrivacyLoss = ComputePrivacyLoss"

subsection \<open>Calls in sequence and a sample engine\<close>

text \<open>
  \<open>log_calls\<close> performs a list of calls of \<^verbatim>\<open>LogToCsv\<close> (file name, header, values) one after
  the other, as a caller within one process does.
\<close>

fun log_calls :: "(string \<times> string \<times> real list) list \<Rightarrow> proc_state \<Rightarrow> proc_state" where
  "log_calls [] s = s"
| "log_calls ((filename, header, values) # cs) s = log_calls cs (LogToCsv filename header values s)"

text \<open>
  A sequence of draws to run the model on: 0.0, 0.1, ..., 0.9 and again from 0.0. Only the
  closed examples below use it; the general theorems hold for every sequence.
\<close>

definition example_draws :: "nat \<Rightarrow> real" where
  "example_draws k = real (k mod 10) / 10"

subsection \<open>The header as the specification describes it\<close>

text \<open>
  The specification's header row: one label \<open>nSta=<v>\<close> per swept size, in order, separated by
  commas; \<open>decimal\<close> writes a number in base ten.
\<close>

fun decimal :: "nat \<Rightarrow> string" where
  "decimal n = (if n < 10 then [''0123456789'' ! n]
                else decimal (n div 10) @ [''0123456789'' ! (n mod 10)])"

fun join_commas :: "string list \<Rightarrow> string" where
  "join_commas [] = []"
| "join_commas [x] = x"
| "join_commas (x # y # ys) = x @ '','' @ join_commas (y # ys)"

definition spec_header :: "32 word list \<Rightarrow> string" where
  "spec_header sizes = join_commas (map (\<lambda>v. ''nSta='' @ decimal (unat v)) sizes)"

subsection \<open>Binary64 arithmetic\<close>

text \<open>
  A value of type \<^typ>\<open>real option\<close> stands for a double: \<open>Some x\<close> is the finite double of value
  \<open>x\<close>, \<open>None\<close> an infinity or a NaN. \<open>b64_round\<close> rounds a real to the nearest number with a
  53-bit significand, ties to the even significand; below \<open>2 powi (- 1022)\<close> the spacing stays
  \<open>2 powi (- 1074)\<close> (subnormal numbers). \<open>b64_of_real\<close> adds the overflow: from
  \<open>2 ^ 1024 - 2 ^ 970\<close> on, halfway between the largest double and \<open>2 ^ 1024\<close>, the result is
  an infinity. A decimal literal of the source is the double nearest to it.

  The sum or product of an infinity or NaN with anything is again an infinity or a NaN. Both
  operands of every division in the source are finite (a literal, and a converted integer or
  the parsed budget), and a zero divisor gives an infinity or a NaN.
\<close>

definition round_half_even :: "real \<Rightarrow> int" where
  "round_half_even t =
     (let f = \<lfloor>t\<rfloor>
      in if t - of_int f < 1 / 2 then f
         else if 1 / 2 < t - of_int f then f + 1
         else if even f then f else f + 1)"









section \<open>Properties\<close>

subsection \<open>The metric functions as maps over the swept sizes\<close>

lemma foldl_push_back: "foldl (\<lambda>acc n. acc @ [f n]) acc xs = acc @ map f xs"
  by (induction xs arbitrary: acc) simp_all

lemma ComputeLatency_map:
  "ComputeLatency p mode x =
     map (\<lambda>n. if mode = ''AITP'' then (10 + 200 / real (unat n)) * 0.9683
               else if mode = ''CAIP'' then 10 + 200 / real (unat n)
               else (10 + 200 / real (unat n)) * 1.35) (nStaValues p)"
proof -
  have "ComputeLatency p mode x =
     foldl (\<lambda>acc n. acc @ [if mode = ''AITP'' then (10 + 200 / real (unat n)) * 0.9683
               else if mode = ''CAIP'' then 10 + 200 / real (unat n)
               else (10 + 200 / real (unat n)) * 1.35]) [] (nStaValues p)"
    unfolding ComputeLatency_def Let_def by (intro arg_cong3[where f = foldl] ext) auto
  then show ?thesis by (simp only: foldl_push_back append_Nil)
qed


lemma ComputeThroughput_map:
  "ComputeThroughput p mode x =
     map (\<lambda>n. if mode = ''AITP'' then 30 * ln (1 + real (unat n) / 2) * 1.117
               else if mode = ''CAIP'' then 30 * ln (1 + real (unat n) / 2)
               else 30 * ln (1 + real (unat n) / 2) * 0.5462) (nStaValues p)"
proof -
  have "ComputeThroughput p mode x =
     foldl (\<lambda>acc n. acc @ [if mode = ''AITP'' then 30 * ln (1 + real (unat n) / 2) * 1.117
               else if mode = ''CAIP'' then 30 * ln (1 + real (unat n) / 2)
               else 30 * ln (1 + real (unat n) / 2) * 0.5462]) [] (nStaValues p)"
    unfolding ComputeThroughput_def Let_def by (intro arg_cong3[where f = foldl] ext) auto
  then show ?thesis by (simp only: foldl_push_back append_Nil)
qed

lemma ComputeEnergyEfficiency_map:
  "ComputeEnergyEfficiency p mode x =
     map (\<lambda>n. if mode = ''AITP'' then 0.4 * real (unat n) * 1.27
               else if mode = ''CAIP'' then 0.4 * real (unat n)
               else 0.4 * real (unat n) * 0.78) (nStaValues p)"
proof -
  have "ComputeEnergyEfficiency p mode x =
     foldl (\<lambda>acc n. acc @ [if mode = ''AITP'' then 0.4 * real (unat n) * 1.27
               else if mode = ''CAIP'' then 0.4 * real (unat n)
               else 0.4 * real (unat n) * 0.78]) [] (nStaValues p)"
    unfolding ComputeEnergyEfficiency_def Let_def by (intro arg_cong3[where f = foldl] ext) auto
  then show ?thesis by (simp only: foldl_push_back append_Nil)
qed

lemma ComputePrivacyLoss_map:
  "ComputePrivacyLoss p mode x =
     map (\<lambda>n. if mode = ''AITP'' then 2 / dpEpsilon p * 0.875
               else if mode = ''CAIP'' then 2 / dpEpsilon p
               else 2 / dpEpsilon p * 1.2) (nStaValues p)"
proof -
  have "ComputePrivacyLoss p mode x =
     foldl (\<lambda>acc n. acc @ [if mode = ''AITP'' then 2 / dpEpsilon p * 0.875
               else if mode = ''CAIP'' then 2 / dpEpsilon p
               else 2 / dpEpsilon p * 1.2]) [] (nStaValues p)"
    unfolding ComputePrivacyLoss_def Let_def by (intro arg_cong3[where f = foldl] ext) auto
  then show ?thesis by (simp only: foldl_push_back append_Nil)
qed

subsection \<open>Metric values\<close>

text \<open>
  Claim C1. For each of the strategies AITP, CAIP and NAP, for swept sizes that are not zero
  and a positive privacy budget, the latency, throughput, energy-efficiency and privacy-loss
  series hold, for every swept size \<open>n\<close> in order, the baseline of the metric
  (\<open>10 + 200 / n\<close>, \<open>30 * ln (1 + n / 2)\<close>, \<open>0.4 * n\<close>, \<open>2 / eps\<close>) times the factor of the
  strategy; the factor of CAIP is 1, and the CAIP series is the baseline itself.
\<close>

theorem metric_is_baseline_times_factor:
  assumes "0 \<notin> set (nStaValues p)" and "0 < dpEpsilon p"
  shows "metric_model m p (strategy_name st) x =
           map (\<lambda>n. spec_baseline m (dpEpsilon p) (unat n) * spec_factor m st) (nStaValues p)
         \<and> metric_model m p ''CAIP'' x =
           map (\<lambda>n. spec_baseline m (dpEpsilon p) (unat n)) (nStaValues p)
         \<and> spec_factor m CAIP = 1"
proof -
  have "metric_model m p (strategy_name st) x =
           map (\<lambda>n. spec_baseline m (dpEpsilon p) (unat n) * spec_factor m st) (nStaValues p)"
    by (cases m; cases st)
       (simp_all add: ComputeLatency_map ComputeThroughput_map ComputeEnergyEfficiency_map
          ComputePrivacyLoss_map)
  moreover have "metric_model m p ''CAIP'' x =
           map (\<lambda>n. spec_baseline m (dpEpsilon p) (unat n)) (nStaValues p)"
    by (cases m)
       (simp_all add: ComputeLatency_map ComputeThroughput_map ComputeEnergyEfficiency_map
          ComputePrivacyLoss_map)
  ultimately show ?thesis by simp
qed

theorem metric_is_baseline_times_factor_witness:
  "0 \<notin> set (nStaValues default_params) \<and> 0 < dpEpsilon default_params
   \<and> metric_model Latency default_params ''AITP'' 500
       = [13.5562, 11.6196, 10.6513, 19366 / 1875, 10.16715, 10.07032]
   \<and> metric_model Latency default_params ''CAIP'' 500 = [14, 12, 11, 32 / 3, 10.5, 10.4]"
proof -
  have h1: "0 \<notin> set (nStaValues default_params)"
    by (simp add: default_params_def)
  have h2: "0 < dpEpsilon default_params"
    by (simp add: default_params_def)
  show ?thesis
    using h1 h2 metric_is_baseline_times_factor [OF h1 h2, of Latency AITP 500]
    by (simp add: default_params_def)
qed

text \<open>
  Claim C7. The selected population count \<open>nSta\<close> has no influence on any metric series:
  with the field and the argument changed from \<open>a\<close> to \<open>b\<close>, each of the five metric
  functions returns the same series (robustness from the same engine state), and the
  metrics loop and the whole model of \<open>main\<close> leave the same state.
\<close>

theorem metric_ignores_population_count:
  "ComputeLatency (p\<lparr>nSta := a\<rparr>) mode a = ComputeLatency (p\<lparr>nSta := b\<rparr>) mode b
   \<and> ComputeThroughput (p\<lparr>nSta := a\<rparr>) mode a = ComputeThroughput (p\<lparr>nSta := b\<rparr>) mode b
   \<and> ComputeEnergyEfficiency (p\<lparr>nSta := a\<rparr>) mode a = ComputeEnergyEfficiency (p\<lparr>nSta := b\<rparr>) mode b
   \<and> ComputePrivacyLoss (p\<lparr>nSta := a\<rparr>) mode a = ComputePrivacyLoss (p\<lparr>nSta := b\<rparr>) mode b
   \<and> ComputeRobustness u (p\<lparr>nSta := a\<rparr>) mode a s = ComputeRobustness u (p\<lparr>nSta := b\<rparr>) mode b s
   \<and> main_metrics u (p\<lparr>nSta := a\<rparr>) s = main_metrics u (p\<lparr>nSta := b\<rparr>) s
   \<and> main_model u (Some a) e s = main_model u (Some b) e s"
proof -
  have metrics: "main_metrics u q s = main_metrics u q' s"
    if "modes q = modes q'" "nStaValues q = nStaValues q'" "dpEpsilon q = dpEpsilon q'" for q q'
  proof -
    have "main_mode_body u q = main_mode_body u q'"
      using that
      by (intro ext)
         (simp add: main_mode_body_def ComputeLatency_def ComputeThroughput_def
            ComputeEnergyEfficiency_def ComputePrivacyLoss_def ComputeRobustness_def)
    then show ?thesis using that by (simp add: main_metrics_def)
  qed
  have "main_model u (Some a) e s = main_model u (Some b) e s"
    by (cases e) (auto simp add: main_model_def parse_args_def intro!: metrics)
  moreover have "main_metrics u (p\<lparr>nSta := a\<rparr>) s = main_metrics u (p\<lparr>nSta := b\<rparr>) s"
    by (rule metrics) simp_all
  ultimately show ?thesis
    by (simp add: ComputeLatency_def ComputeThroughput_def
          ComputeEnergyEfficiency_def ComputePrivacyLoss_def ComputeRobustness_def)
qed

subsection \<open>Strategy identifiers outside the three names\<close>

text \<open>
  Claim C2, as the code has it. No metric function rejects an identifier: the last branch
  of each takes every identifier other than AITP and CAIP, so for such an identifier each
  of the five functions returns the series it returns for NAP.
\<close>

theorem unrecognized_mode_gets_nap_factor:
  assumes "mode \<noteq> ''AITP''" and "mode \<noteq> ''CAIP''"
  shows "ComputeLatency p mode x = ComputeLatency p ''NAP'' x
         \<and> ComputeThroughput p mode x = ComputeThroughput p ''NAP'' x
         \<and> ComputeEnergyEfficiency p mode x = ComputeEnergyEfficiency p ''NAP'' x
         \<and> ComputePrivacyLoss p mode x = ComputePrivacyLoss p ''NAP'' x
         \<and> ComputeRobustness u p mode x s = ComputeRobustness u p ''NAP'' x s"
  using assms
  by (simp add: ComputeLatency_def ComputeThroughput_def ComputeEnergyEfficiency_def
        ComputePrivacyLoss_def ComputeRobustness_def)

theorem unrecognized_mode_gets_nap_factor_witness:
  "''XYZ'' \<noteq> ''AITP'' \<and> ''XYZ'' \<noteq> ''CAIP''
   \<and> ComputeLatency default_params ''XYZ'' 500 = ComputeLatency default_params ''NAP'' 500
   \<and> ComputePrivacyLoss default_params ''XYZ'' 500 = ComputePrivacyLoss default_params ''NAP'' 500"
proof -
  have h1: "''XYZ'' \<noteq> ''AITP''" by simp
  have h2: "''XYZ'' \<noteq> ''CAIP''" by simp
  show ?thesis
    using unrecognized_mode_gets_nap_factor [OF h1 h2, of default_params 500] by simp
qed

text \<open>
  The identifier \<open>XYZ\<close> is none of the three names, and the metric functions return series
  for it: the NAP factors 1.35, 0.78 and 1.2 applied to the baselines.
\<close>

theorem unrecognized_mode_counterexample:
  "ComputeLatency default_params ''XYZ'' 500 = [18.9, 16.2, 14.85, 14.4, 14.175, 14.04]
   \<and> ComputeEnergyEfficiency default_params ''XYZ'' 500 = [15.6, 31.2, 62.4, 93.6, 124.8, 156]
   \<and> ComputePrivacyLoss default_params ''XYZ'' 500 = [2.4, 2.4, 2.4, 2.4, 2.4, 2.4]"
  by (simp add: ComputeLatency_map ComputeEnergyEfficiency_map ComputePrivacyLoss_map
        default_params_def)


subsection \<open>The robustness function and the parsed parameters\<close>

lemma draws_fold:
  "foldl (\<lambda>(acc, s) n. (acc @ [f (u (gen s))], s\<lparr>gen := gen s + 1\<rparr>)) (acc, s) ns =
     (acc @ map (\<lambda>k. f (u (gen s + k))) [0..<length ns], s\<lparr>gen := gen s + length ns\<rparr>)"
proof (induction ns arbitrary: acc s)
  case Nil
  show ?case by simp
next
  case (Cons n ns)
  have shift: "[0..<Suc (length ns)] = 0 # map Suc [0..<length ns]"
    by (simp add: upt_conv_Cons map_Suc_upt del: upt_Suc)
  show ?case
    using Cons.IH [of "acc @ [f (u (gen s))]" "s\<lparr>gen := gen s + 1\<rparr>"]
    by (simp add: shift comp_def del: upt_Suc)
qed

lemma ComputeRobustness_map:
  "ComputeRobustness u p mode x s =
     (map (\<lambda>k. if mode = ''AITP'' then (1 - u (gen s + k) * 0.5) * 1.335
                else if mode = ''CAIP'' then 1 - u (gen s + k) * 0.5
                else (1 - u (gen s + k) * 0.5) * 0.8) [0..<length (nStaValues p)],
      s\<lparr>gen := gen s + length (nStaValues p)\<rparr>)"
proof -
  have "ComputeRobustness u p mode x s =
     foldl (\<lambda>(acc, s) n.
        (acc @ [(\<lambda>r. if mode = ''AITP'' then (1 - r * 0.5) * 1.335
                        else if mode = ''CAIP'' then 1 - r * 0.5
                        else (1 - r * 0.5) * 0.8) (u (gen s))], s\<lparr>gen := gen s + 1\<rparr>))
      ([], s) (nStaValues p)"
    unfolding ComputeRobustness_def GetRandomFailureRate_def Let_def
    by (intro arg_cong3[where f = foldl] ext) auto
  then show ?thesis
    using draws_fold [of "\<lambda>r. if mode = ''AITP'' then (1 - r * 0.5) * 1.335
                        else if mode = ''CAIP'' then 1 - r * 0.5
                        else (1 - r * 0.5) * 0.8" u "[]" s "nStaValues p"]
    by simp
qed

lemma parse_args_fields:
  "modes (parse_args n e q) = modes q"
  "nStaValues (parse_args n e q) = nStaValues q"
  "dpEpsilon (parse_args n e q) = (case e of None \<Rightarrow> dpEpsilon q | Some v \<Rightarrow> v)"
  "nSta (parse_args n e q) = (case n of None \<Rightarrow> nSta q | Some v \<Rightarrow> v)"
  by (simp_all add: parse_args_def split: option.splits)

subsection \<open>The logging helper\<close>

lemma files_LogToCsv:
  "files (LogToCsv f h v s) g =
     (if g = f
      then Some (if initialized s f
                 then (case files s f of None \<Rightarrow> [] | Some ls \<Rightarrow> ls) @ [DataLine v]
                 else [HeaderLine h, DataLine v])
      else files s g)"
  by (simp add: LogToCsv_def)

lemma initialized_LogToCsv:
  "initialized (LogToCsv f h v s) g = (g = f \<or> initialized s g)"
  by (auto simp add: LogToCsv_def)

lemma gen_LogToCsv: "gen (LogToCsv f h v s) = gen s"
  by (simp add: LogToCsv_def)

lemma log_calls_appends:
  "initialized s f \<Longrightarrow> files s f = Some ls \<Longrightarrow>
     files (log_calls cs s) f =
       Some (ls @ map (\<lambda>c. DataLine (snd (snd c))) (filter (\<lambda>c. fst c = f) cs))"
proof (induction cs arbitrary: s ls)
  case Nil
  then show ?case by simp
next
  case (Cons c cs)
  obtain g h v where c: "c = (g, h, v)" by (cases c)
  show ?case
  proof (cases "g = f")
    case True
    have "initialized (LogToCsv f h v s) f"
      and "files (LogToCsv f h v s) f = Some (ls @ [DataLine v])"
      using Cons.prems by (simp_all add: files_LogToCsv initialized_LogToCsv)
    from Cons.IH [OF this] show ?thesis
      by (simp add: c True)
  next
    case False
    have "initialized (LogToCsv g h v s) f" and "files (LogToCsv g h v s) f = Some ls"
      using Cons.prems False by (simp_all add: files_LogToCsv initialized_LogToCsv)
    from Cons.IH [OF this] show ?thesis
      using False by (simp add: c)
  qed
qed

text \<open>
  Claim C4. Within one process, the first write to a table stores the header once and one
  data row under it, and every later write to the same table adds one data row at the end,
  whatever header it passes and whatever writes to other tables come in between: after
  the calls the table holds the first header followed by the rows of its writes in call
  order. Two writes leave one header and two rows.
\<close>

theorem header_once_then_rows:
  assumes "\<not> initialized s f"
  shows "files (log_calls ((f, h, v) # cs) s) f =
           Some (HeaderLine h # DataLine v #
                 map (\<lambda>c. DataLine (snd (snd c))) (filter (\<lambda>c. fst c = f) cs))"
proof -
  have "initialized (LogToCsv f h v s) f"
    and "files (LogToCsv f h v s) f = Some [HeaderLine h, DataLine v]"
    using assms by (simp_all add: files_LogToCsv initialized_LogToCsv)
  from log_calls_appends [OF this] show ?thesis
    by simp
qed

theorem header_once_then_rows_witness:
  "\<not> initialized (process_start Map.empty) ''t.csv''
   \<and> files (log_calls [(''t.csv'', ''a,b'', [1, 2]), (''t.csv'', ''a,b'', [3, 4])]
              (process_start Map.empty)) ''t.csv''
       = Some [HeaderLine ''a,b'', DataLine [1, 2], DataLine [3, 4]]
   \<and> files (log_calls [(''t.csv'', ''a,b'', [1, 2]), (''u.csv'', ''c'', [7]), (''t.csv'', ''x,y'', [3, 4])]
              (process_start [''t.csv'' \<mapsto> [HeaderLine ''old'']])) ''t.csv''
       = Some [HeaderLine ''a,b'', DataLine [1, 2], DataLine [3, 4]]"
proof -
  have h: "\<not> initialized (process_start fs) ''t.csv''" for fs
    by (simp add: process_start_def)
  show ?thesis
    using h [of Map.empty]
      header_once_then_rows [OF h [of Map.empty], of "''a,b''" "[1, 2]"
        "[(''t.csv'', ''a,b'', [3, 4])]"]
      header_once_then_rows [OF h [of "[''t.csv'' \<mapsto> [HeaderLine ''old'']]"], of "''a,b''" "[1, 2]"
        "[(''u.csv'', ''c'', [7]), (''t.csv'', ''x,y'', [3, 4])]"]
    by simp
qed

text \<open>
  Claim C10. The first write to a file name within a process replaces whatever the file
  held (what an earlier process left there included) by the header and the first data
  row; a write to a name already written in this process keeps the content and adds the
  row at the end. Either way the name counts as written afterwards, and no other file
  changes.
\<close>

theorem first_write_truncates_later_append:
  "(\<not> initialized s f \<longrightarrow>
      files (LogToCsv f h v s) f = Some [HeaderLine h, DataLine v])
   \<and> (initialized s f \<longrightarrow>
      files (LogToCsv f h v s) f =
        Some ((case files s f of None \<Rightarrow> [] | Some ls \<Rightarrow> ls) @ [DataLine v]))
   \<and> initialized (LogToCsv f h v s) f
   \<and> (g \<noteq> f \<longrightarrow> files (LogToCsv f h v s) g = files s g)"
  by (simp add: LogToCsv_def)

theorem first_write_truncates_later_append_witness:
  "\<not> initialized (process_start [''t.csv'' \<mapsto> [HeaderLine ''old'', DataLine [9]]]) ''t.csv''
   \<and> files (LogToCsv ''t.csv'' ''a,b'' [1, 2]
        (process_start [''t.csv'' \<mapsto> [HeaderLine ''old'', DataLine [9]]])) ''t.csv''
       = Some [HeaderLine ''a,b'', DataLine [1, 2]]
   \<and> initialized (LogToCsv ''t.csv'' ''a,b'' [1, 2]
        (process_start [''t.csv'' \<mapsto> [HeaderLine ''old'', DataLine [9]]])) ''t.csv''
   \<and> files (LogToCsv ''t.csv'' ''a,b'' [3, 4] (LogToCsv ''t.csv'' ''a,b'' [1, 2]
        (process_start [''t.csv'' \<mapsto> [HeaderLine ''old'', DataLine [9]]]))) ''t.csv''
       = Some [HeaderLine ''a,b'', DataLine [1, 2], DataLine [3, 4]]"
proof -
  let ?s0 = "process_start [''t.csv'' \<mapsto> [HeaderLine ''old'', DataLine [9]]]"
  let ?s1 = "LogToCsv ''t.csv'' ''a,b'' [1, 2] ?s0"
  have h: "\<not> initialized ?s0 ''t.csv''"
    by (simp add: process_start_def)
  have first: "files ?s1 ''t.csv'' = Some [HeaderLine ''a,b'', DataLine [1, 2]]"
    and init: "initialized ?s1 ''t.csv''"
    using h first_write_truncates_later_append [of ?s0 "''t.csv''" "''a,b''" "[1, 2]" "''u.csv''"]
    by simp_all
  have "files (LogToCsv ''t.csv'' ''a,b'' [3, 4] ?s1) ''t.csv''
          = Some [HeaderLine ''a,b'', DataLine [1, 2], DataLine [3, 4]]"
    using init first
      first_write_truncates_later_append [of ?s1 "''t.csv''" "''a,b''" "[3, 4]" "''u.csv''"]
    by simp
  with h first init show ?thesis by simp
qed

subsection \<open>The metrics loop of main\<close>

lemma main_mode_body_eq:
  "main_mode_body u p s mode =
     LogToCsv (''results_'' @ mode @ ''_robustness.csv'')
       ''nSta=50,nSta=100,nSta=200,nSta=300,nSta=400,nSta=500''
       (fst (ComputeRobustness u p mode (nSta p) s))
       (LogToCsv (''results_'' @ mode @ ''_privacy.csv'')
          ''nSta=50,nSta=100,nSta=200,nSta=300,nSta=400,nSta=500''
          (ComputePrivacyLoss p mode (nSta p))
          (LogToCsv (''results_'' @ mode @ ''_energy.csv'')
             ''nSta=50,nSta=100,nSta=200,nSta=300,nSta=400,nSta=500''
             (ComputeEnergyEfficiency p mode (nSta p))
             (LogToCsv (''results_'' @ mode @ ''_throughput.csv'')
                ''nSta=50,nSta=100,nSta=200,nSta=300,nSta=400,nSta=500''
                (ComputeThroughput p mode (nSta p))
                (LogToCsv (''results_'' @ mode @ ''_latency.csv'')
                   ''nSta=50,nSta=100,nSta=200,nSta=300,nSta=400,nSta=500''
                   (ComputeLatency p mode (nSta p))
                   (snd (ComputeRobustness u p mode (nSta p) s))))))"
  by (simp add: main_mode_body_def Let_def case_prod_beta)

lemmas run_simps =
  main_model_def main_metrics_def main_mode_body_eq files_LogToCsv initialized_LogToCsv
  gen_LogToCsv ComputeLatency_map ComputeThroughput_map ComputeEnergyEfficiency_map
  ComputePrivacyLoss_map ComputeRobustness_map parse_args_fields default_params_def
  process_start_def


lemma replicate_6: "replicate 6 x = [x, x, x, x, x, x]"
  by (simp add: eval_nat_numeral)

lemma run_privacy_files:
  "files (main_model u n e (process_start fs)) ''results_AITP_privacy.csv''
     = Some [HeaderLine ''nSta=50,nSta=100,nSta=200,nSta=300,nSta=400,nSta=500'',
             DataLine (replicate 6 (2 / dpEpsilon (parse_args n e default_params) * 0.875))]"
  "files (main_model u n e (process_start fs)) ''results_CAIP_privacy.csv''
     = Some [HeaderLine ''nSta=50,nSta=100,nSta=200,nSta=300,nSta=400,nSta=500'',
             DataLine (replicate 6 (2 / dpEpsilon (parse_args n e default_params)))]"
  "files (main_model u n e (process_start fs)) ''results_NAP_privacy.csv''
     = Some [HeaderLine ''nSta=50,nSta=100,nSta=200,nSta=300,nSta=400,nSta=500'',
             DataLine (replicate 6 (2 / dpEpsilon (parse_args n e default_params) * 1.2))]"
  by (simp_all add: run_simps replicate_6)

lemma run_robustness_files:
  "files (main_model u n e (process_start fs)) ''results_AITP_robustness.csv''
     = Some [HeaderLine ''nSta=50,nSta=100,nSta=200,nSta=300,nSta=400,nSta=500'',
             DataLine (map (\<lambda>k. (1 - u k * 0.5) * 1.335) [0, 1, 2, 3, 4, 5])]"
  "files (main_model u n e (process_start fs)) ''results_CAIP_robustness.csv''
     = Some [HeaderLine ''nSta=50,nSta=100,nSta=200,nSta=300,nSta=400,nSta=500'',
             DataLine (map (\<lambda>k. 1 - u k * 0.5) [6, 7, 8, 9, 10, 11])]"
  "files (main_model u n e (process_start fs)) ''results_NAP_robustness.csv''
     = Some [HeaderLine ''nSta=50,nSta=100,nSta=200,nSta=300,nSta=400,nSta=500'',
             DataLine (map (\<lambda>k. (1 - u k * 0.5) * 0.8) [12, 13, 14, 15, 16, 17])]"
  by (simp_all add: run_simps eval_nat_numeral)

lemma run_latency_files:
  "files (main_model u n e (process_start fs)) (''results_'' @ strategy_name st @ ''_latency.csv'')
     = Some [HeaderLine ''nSta=50,nSta=100,nSta=200,nSta=300,nSta=400,nSta=500'',
             DataLine (ComputeLatency (parse_args n e default_params) (strategy_name st)
                         (nSta (parse_args n e default_params)))]"
  by (cases st) (simp_all add: run_simps)

lemma run_throughput_files:
  "files (main_model u n e (process_start fs)) (''results_'' @ strategy_name st @ ''_throughput.csv'')
     = Some [HeaderLine ''nSta=50,nSta=100,nSta=200,nSta=300,nSta=400,nSta=500'',
             DataLine (ComputeThroughput (parse_args n e default_params) (strategy_name st)
                         (nSta (parse_args n e default_params)))]"
  by (cases st) (simp_all add: run_simps)

lemma run_energy_files:
  "files (main_model u n e (process_start fs)) (''results_'' @ strategy_name st @ ''_energy.csv'')
     = Some [HeaderLine ''nSta=50,nSta=100,nSta=200,nSta=300,nSta=400,nSta=500'',
             DataLine (ComputeEnergyEfficiency (parse_args n e default_params) (strategy_name st)
                         (nSta (parse_args n e default_params)))]"
  by (cases st) (simp_all add: run_simps)

lemma run_privacy_series:
  "files (main_model u n e (process_start fs)) (''results_'' @ strategy_name st @ ''_privacy.csv'')
     = Some [HeaderLine ''nSta=50,nSta=100,nSta=200,nSta=300,nSta=400,nSta=500'',
             DataLine (ComputePrivacyLoss (parse_args n e default_params) (strategy_name st)
                         (nSta (parse_args n e default_params)))]"
  by (cases st) (simp_all add: run_simps)

subsection \<open>Overrides of the parameters\<close>

text \<open>
  Claim C3, as the code has it. \<open>main\<close> checks neither override: with the population count
  set to any \<open>n\<close> and the privacy budget set to any \<open>eps\<close> other than zero, negative ones
  included, the parameters hold exactly these values and the metrics loop computes every
  metric with them and writes every table: for each of the three modes the latency,
  throughput, energy and privacy tables hold the header and the series of the metric
  function on these parameters (the privacy rows are \<open>2 / eps\<close> times the factor of the
  mode), and the three robustness tables hold the rows of the draws.
\<close>

theorem overrides_are_not_validated:
  assumes "eps \<noteq> 0"
  shows "nSta (parse_args (Some n) (Some eps) default_params) = n
       \<and> dpEpsilon (parse_args (Some n) (Some eps) default_params) = eps
       \<and> files (main_model u (Some n) (Some eps) (process_start fs))
           (''results_'' @ strategy_name st @ ''_latency.csv'')
           = Some [HeaderLine ''nSta=50,nSta=100,nSta=200,nSta=300,nSta=400,nSta=500'',
                   DataLine (ComputeLatency (parse_args (Some n) (Some eps) default_params)
                               (strategy_name st) n)]
       \<and> files (main_model u (Some n) (Some eps) (process_start fs))
           (''results_'' @ strategy_name st @ ''_throughput.csv'')
           = Some [HeaderLine ''nSta=50,nSta=100,nSta=200,nSta=300,nSta=400,nSta=500'',
                   DataLine (ComputeThroughput (parse_args (Some n) (Some eps) default_params)
                               (strategy_name st) n)]
       \<and> files (main_model u (Some n) (Some eps) (process_start fs))
           (''results_'' @ strategy_name st @ ''_energy.csv'')
           = Some [HeaderLine ''nSta=50,nSta=100,nSta=200,nSta=300,nSta=400,nSta=500'',
                   DataLine (ComputeEnergyEfficiency (parse_args (Some n) (Some eps) default_params)
                               (strategy_name st) n)]
       \<and> files (main_model u (Some n) (Some eps) (process_start fs))
           (''results_'' @ strategy_name st @ ''_privacy.csv'')
           = Some [HeaderLine ''nSta=50,nSta=100,nSta=200,nSta=300,nSta=400,nSta=500'',
                   DataLine (replicate 6 (2 / eps * spec_factor PrivacyLoss st))]
       \<and> ComputePrivacyLoss (parse_args (Some n) (Some eps) default_params) (strategy_name st) n
           = replicate 6 (2 / eps * spec_factor PrivacyLoss st)
       \<and> files (main_model u (Some n) (Some eps) (process_start fs)) ''results_AITP_robustness.csv''
           = Some [HeaderLine ''nSta=50,nSta=100,nSta=200,nSta=300,nSta=400,nSta=500'',
                   DataLine (map (\<lambda>k. (1 - u k * 0.5) * 1.335) [0, 1, 2, 3, 4, 5])]
       \<and> files (main_model u (Some n) (Some eps) (process_start fs)) ''results_CAIP_robustness.csv''
           = Some [HeaderLine ''nSta=50,nSta=100,nSta=200,nSta=300,nSta=400,nSta=500'',
                   DataLine (map (\<lambda>k. 1 - u k * 0.5) [6, 7, 8, 9, 10, 11])]
       \<and> files (main_model u (Some n) (Some eps) (process_start fs)) ''results_NAP_robustness.csv''
           = Some [HeaderLine ''nSta=50,nSta=100,nSta=200,nSta=300,nSta=400,nSta=500'',
                   DataLine (map (\<lambda>k. (1 - u k * 0.5) * 0.8) [12, 13, 14, 15, 16, 17])]"
proof -
  have p: "ComputePrivacyLoss (parse_args (Some n) (Some eps) default_params) (strategy_name st) n
           = replicate 6 (2 / eps * spec_factor PrivacyLoss st)"
    by (cases st)
       (simp_all add: ComputePrivacyLoss_map parse_args_fields default_params_def replicate_6)
  have s: "nSta (parse_args (Some n) (Some eps) default_params) = n"
    by (simp add: parse_args_fields)
  show ?thesis
    using run_latency_files [of u "Some n" "Some eps" fs st] run_throughput_files [of u "Some n" "Some eps" fs st]
      run_energy_files [of u "Some n" "Some eps" fs st] run_privacy_series [of u "Some n" "Some eps" fs st] p
    by (simp only: s run_robustness_files simp_thms) (simp add: parse_args_fields)
qed

theorem overrides_are_not_validated_witness:
  "(- 1 :: real) \<noteq> 0
   \<and> files (main_model example_draws (Some 10) (Some (- 1)) (process_start Map.empty))
        ''results_NAP_privacy.csv''
       = Some [HeaderLine ''nSta=50,nSta=100,nSta=200,nSta=300,nSta=400,nSta=500'',
               DataLine [- 2.4, - 2.4, - 2.4, - 2.4, - 2.4, - 2.4]]
   \<and> files (main_model example_draws (Some 10) (Some (- 1)) (process_start Map.empty))
        ''results_NAP_latency.csv''
       = Some [HeaderLine ''nSta=50,nSta=100,nSta=200,nSta=300,nSta=400,nSta=500'',
               DataLine [18.9, 16.2, 14.85, 14.4, 14.175, 14.04]]"
proof -
  have h: "(- 1 :: real) \<noteq> 0" by simp
  show ?thesis
    using overrides_are_not_validated [OF h, of 10 example_draws Map.empty NAP]
    by (simp add: replicate_6 ComputeLatency_map parse_args_fields default_params_def)
qed

text \<open>
  With the privacy budget overridden to \<open>-1\<close> no error arises: the privacy-loss model
  receives \<open>-1\<close> and the CAIP privacy table is written with six times \<open>-2\<close>.
\<close>

theorem overrides_are_not_validated_counterexample:
  "dpEpsilon (parse_args (Some 10) (Some (- 1)) default_params) = - 1
   \<and> ComputePrivacyLoss (parse_args (Some 10) (Some (- 1)) default_params) ''CAIP'' 10
       = [- 2, - 2, - 2, - 2, - 2, - 2]
   \<and> files (main_model example_draws (Some 10) (Some (- 1)) (process_start Map.empty))
        ''results_CAIP_privacy.csv''
       = Some [HeaderLine ''nSta=50,nSta=100,nSta=200,nSta=300,nSta=400,nSta=500'',
               DataLine [- 2, - 2, - 2, - 2, - 2, - 2]]"
  by (simp add: run_privacy_files replicate_6 ComputePrivacyLoss_map parse_args_fields
        default_params_def)

subsection \<open>Robustness from one process to the next\<close>

text \<open>
  Claim C5, as the code has it. The engine is default-constructed, so every process draws
  the same sequence \<open>u\<close>: a run writes the robustness rows of AITP, CAIP and NAP from the
  draws 0 to 5, 6 to 11 and 12 to 17 of that sequence, one fresh draw per swept size,
  whatever the overrides and whatever files \<open>fs\<close> it finds. Two runs, started on any files
  \<open>fs\<close> and \<open>fs'\<close>, therefore write the same robustness tables.
\<close>

theorem robustness_rows_fixed_by_engine:
  "files (main_model u n e (process_start fs)) ''results_AITP_robustness.csv''
     = Some [HeaderLine ''nSta=50,nSta=100,nSta=200,nSta=300,nSta=400,nSta=500'',
             DataLine (map (\<lambda>k. (1 - u k * 0.5) * 1.335) [0, 1, 2, 3, 4, 5])]
   \<and> files (main_model u n e (process_start fs)) ''results_CAIP_robustness.csv''
     = Some [HeaderLine ''nSta=50,nSta=100,nSta=200,nSta=300,nSta=400,nSta=500'',
             DataLine (map (\<lambda>k. 1 - u k * 0.5) [6, 7, 8, 9, 10, 11])]
   \<and> files (main_model u n e (process_start fs)) ''results_NAP_robustness.csv''
     = Some [HeaderLine ''nSta=50,nSta=100,nSta=200,nSta=300,nSta=400,nSta=500'',
             DataLine (map (\<lambda>k. (1 - u k * 0.5) * 0.8) [12, 13, 14, 15, 16, 17])]
   \<and> files (main_model u n e (process_start fs)) ''results_AITP_robustness.csv''
     = files (main_model u n e (process_start fs')) ''results_AITP_robustness.csv''
   \<and> files (main_model u n e (process_start fs)) ''results_CAIP_robustness.csv''
     = files (main_model u n e (process_start fs')) ''results_CAIP_robustness.csv''
   \<and> files (main_model u n e (process_start fs)) ''results_NAP_robustness.csv''
     = files (main_model u n e (process_start fs')) ''results_NAP_robustness.csv''"
  by (simp only: run_robustness_files simp_thms)

text \<open>
  A run on an empty directory and a second run on the files the first one left write the
  same CAIP robustness table.
\<close>

theorem rerun_same_robustness_counterexample:
  "files (main_model example_draws (Some 10) None (process_start Map.empty))
      ''results_CAIP_robustness.csv''
     = Some [HeaderLine ''nSta=50,nSta=100,nSta=200,nSta=300,nSta=400,nSta=500'',
             DataLine [0.7, 0.65, 0.6, 0.55, 1, 0.95]]
   \<and> files (main_model example_draws (Some 10) None
        (process_start (files (main_model example_draws (Some 10) None (process_start Map.empty)))))
      ''results_CAIP_robustness.csv''
     = Some [HeaderLine ''nSta=50,nSta=100,nSta=200,nSta=300,nSta=400,nSta=500'',
             DataLine [0.7, 0.65, 0.6, 0.55, 1, 0.95]]"
  by (simp add: run_robustness_files example_draws_def)

subsection \<open>The header row\<close>

lemma decimal_digit: "n < 10 \<Longrightarrow> decimal n = [''0123456789'' ! n]"
  by simp

lemma decimal_more: "\<not> n < 10 \<Longrightarrow> decimal n = decimal (n div 10) @ [''0123456789'' ! (n mod 10)]"
  by simp

lemma header_inv_LogToCsv:
  assumes "\<And>f. initialized s f \<Longrightarrow> \<exists>rows. files s f = Some (HeaderLine h # rows)"
    and "initialized (LogToCsv g h v s) f"
  shows "\<exists>rows. files (LogToCsv g h v s) f = Some (HeaderLine h # rows)"
proof (cases "f = g")
  case True
  show ?thesis
  proof (cases "initialized s g")
    case True
    from assms(1) [OF this] obtain rows where "files s g = Some (HeaderLine h # rows)" ..
    with True \<open>f = g\<close> show ?thesis by (simp add: files_LogToCsv)
  next
    case False
    with \<open>f = g\<close> show ?thesis by (simp add: files_LogToCsv)
  qed
next
  case False
  with assms show ?thesis by (simp add: files_LogToCsv initialized_LogToCsv)
qed

lemma header_inv_main_mode_body:
  assumes "\<And>f. initialized s f \<Longrightarrow>
             \<exists>rows. files s f = Some (HeaderLine ''nSta=50,nSta=100,nSta=200,nSta=300,nSta=400,nSta=500'' # rows)"
    and "initialized (main_mode_body u p s mode) f"
  shows "\<exists>rows. files (main_mode_body u p s mode) f =
           Some (HeaderLine ''nSta=50,nSta=100,nSta=200,nSta=300,nSta=400,nSta=500'' # rows)"
proof -
  let ?H = "''nSta=50,nSta=100,nSta=200,nSta=300,nSta=400,nSta=500''"
  let ?I = "\<lambda>t. \<forall>f. initialized t f \<longrightarrow> (\<exists>rows. files t f = Some (HeaderLine ?H # rows))"
  have step: "?I (LogToCsv g ?H v t)" if "?I t" for g v t
    using that header_inv_LogToCsv [of t ?H g v] by blast
  have "?I (snd (ComputeRobustness u p mode (nSta p) s))"
    using assms(1) by (simp add: ComputeRobustness_map)
  then have "?I (main_mode_body u p s mode)"
    unfolding main_mode_body_eq by (intro step)
  with assms(2) show ?thesis by blast
qed

lemma header_inv_foldl:
  assumes "\<And>f. initialized s f \<Longrightarrow>
             \<exists>rows. files s f = Some (HeaderLine ''nSta=50,nSta=100,nSta=200,nSta=300,nSta=400,nSta=500'' # rows)"
    and "initialized (foldl (main_mode_body u p) s ms) f"
  shows "\<exists>rows. files (foldl (main_mode_body u p) s ms) f =
           Some (HeaderLine ''nSta=50,nSta=100,nSta=200,nSta=300,nSta=400,nSta=500'' # rows)"
  using assms
proof (induction ms arbitrary: s)
  case Nil
  then show ?case by simp
next
  case (Cons m ms)
  show ?case
    unfolding foldl_Cons
  proof (rule Cons.IH)
    show "initialized (foldl (main_mode_body u p) (main_mode_body u p s m) ms) f"
      using Cons.prems(2) by simp
  next
    fix g
    assume "initialized (main_mode_body u p s m) g"
    with Cons.prems(1) show "\<exists>rows. files (main_mode_body u p s m) g =
           Some (HeaderLine ''nSta=50,nSta=100,nSta=200,nSta=300,nSta=400,nSta=500'' # rows)"
      by (rule header_inv_main_mode_body)
  qed
qed

lemma main_metrics_header:
  assumes "initialized (main_metrics u p (process_start fs)) f"
  shows "\<exists>rows. files (main_metrics u p (process_start fs)) f =
            Some (HeaderLine ''nSta=50,nSta=100,nSta=200,nSta=300,nSta=400,nSta=500'' # rows)"
  unfolding main_metrics_def
proof (rule header_inv_foldl)
  show "initialized (foldl (main_mode_body u p) (process_start fs) (modes p)) f"
    using assms by (simp add: main_metrics_def)
next
  fix g
  assume "initialized (process_start fs) g"
  then show "\<exists>rows. files (process_start fs) g =
          Some (HeaderLine ''nSta=50,nSta=100,nSta=200,nSta=300,nSta=400,nSta=500'' # rows)"
    by (simp add: process_start_def)
qed


text \<open>
  Claim C6. The header of every table that a run writes is the header derived from the swept
  sizes of the run's parameters: one label \<open>nSta=<v>\<close> per swept size, in sweep order. The
  source passes the text \<open>nSta=50,nSta=100,nSta=200,nSta=300,nSta=400,nSta=500\<close>; the swept
  sizes have no override, so this is the derived header in every run.
\<close>

theorem header_derived_from_sweep_sizes:
  assumes "initialized (main_model u n e (process_start fs)) f"
  shows "(\<exists>rows. files (main_model u n e (process_start fs)) f =
            Some (HeaderLine (spec_header (nStaValues (parse_args n e default_params))) # rows))
         \<and> spec_header (nStaValues (parse_args n e default_params)) =
             ''nSta=50,nSta=100,nSta=200,nSta=300,nSta=400,nSta=500''"
proof -
  have h: "spec_header (nStaValues (parse_args n e default_params)) =
             ''nSta=50,nSta=100,nSta=200,nSta=300,nSta=400,nSta=500''"
    by (simp add: parse_args_fields spec_header_def default_params_def decimal_digit decimal_more
          del: decimal.simps)
  have "\<exists>rows. files (main_model u n e (process_start fs)) f =
            Some (HeaderLine ''nSta=50,nSta=100,nSta=200,nSta=300,nSta=400,nSta=500'' # rows)"
    using assms unfolding main_model_def by (rule main_metrics_header)
  with h show ?thesis by simp
qed

theorem header_derived_from_sweep_sizes_witness:
  "initialized (main_model example_draws (Some 10) None (process_start Map.empty))
     ''results_AITP_latency.csv''
   \<and> files (main_model example_draws (Some 10) None (process_start Map.empty))
     ''results_AITP_latency.csv''
     = Some [HeaderLine (spec_header [50, 100, 200, 300, 400, 500]),
             DataLine [13.5562, 11.6196, 10.6513, 19366 / 1875, 10.16715, 10.07032]]
   \<and> spec_header [50, 100, 200, 300, 400, 500]
     = ''nSta=50,nSta=100,nSta=200,nSta=300,nSta=400,nSta=500''"
proof -
  have h: "initialized (main_model example_draws (Some 10) None (process_start Map.empty))
     ''results_AITP_latency.csv''"
    by (simp add: run_simps)
  have nv: "nStaValues (parse_args (Some 10) None default_params) = [50, 100, 200, 300, 400, 500]"
    by (simp add: parse_args_fields default_params_def)
  from header_derived_from_sweep_sizes [OF h]
  have s: "spec_header [50, 100, 200, 300, 400, 500]
     = ''nSta=50,nSta=100,nSta=200,nSta=300,nSta=400,nSta=500''"
    unfolding nv by (rule conjunct2)
  have "files (main_model example_draws (Some 10) None (process_start Map.empty))
     ''results_AITP_latency.csv''
     = Some [HeaderLine ''nSta=50,nSta=100,nSta=200,nSta=300,nSta=400,nSta=500'',
             DataLine [13.5562, 11.6196, 10.6513, 19366 / 1875, 10.16715, 10.07032]]"
    by (simp add: run_simps)
  then have f: "files (main_model example_draws (Some 10) None (process_start Map.empty))
     ''results_AITP_latency.csv''
     = Some [HeaderLine (spec_header [50, 100, 200, 300, 400, 500]),
             DataLine [13.5562, 11.6196, 10.6513, 19366 / 1875, 10.16715, 10.07032]]"
    by (simp only: s)
  from h f s show ?thesis by (intro conjI)
qed

subsection \<open>Rounding to binary64\<close>


lemma rhe_of_int [simp]: "round_half_even (of_int m) = m"
  by (simp add: round_half_even_def)















subsection \<open>Latency and privacy loss in binary64\<close>


















end
